theory Spec2Isabelle
  imports Main "HOL-Library.Word"
begin

section \<open>Python library functions used by honeypot.py\<close>

text \<open>
  A Python \<open>str\<close> read from the environment is modelled as a \<open>string\<close>; a character is
  its code point, below 256. The three library functions that \<open>Honeypot.__init__\<close> calls on
  the override are written out as CPython computes them on such strings.
\<close>

definition code :: "char \<Rightarrow> nat" where
  "code c = of_char c"












section \<open>Honeypot.__init__: the ports to listen on\<close>







section \<open>bytes.decode('utf-8', errors=...)\<close>

text \<open>
  Bytes are 8-bit words, a decoded \<open>str\<close> is the list of its code points. The decoder is
  CPython's: it reads one sequence at a time and, where the bytes are not UTF-8, finds the
  undecodable range (one byte for a wrong start byte, the bytes before a wrong continuation
  byte, everything left for a sequence cut off by the end of the data) and hands it to the
  error handler named by \<open>errors\<close>.
\<close>

type_synonym byte = "8 word"
type_synonym bytes = "byte list"
type_synonym str = "int list"

text \<open>
  The exceptions of the model, all subclasses of \<open>Exception\<close>, and \<open>str(e)\<close>; of the
  text of a \<open>UnicodeDecodeError\<close> only the reason is kept. A call that may raise returns
  \<open>Inl e\<close> when it raises \<open>e\<close> and \<open>Inr v\<close> when it returns \<open>v\<close>.
\<close>

datatype exn = OSError string | UnicodeDecodeError string | RuntimeError string

type_synonym 'a result = "exn + 'a"

fun str_exn :: "exn \<Rightarrow> string" where
  "str_exn (OSError msg) = msg"
| "str_exn (UnicodeDecodeError reason) = reason"
| "str_exn (RuntimeError msg) = msg"

definition IS_CONTINUATION_BYTE :: "byte \<Rightarrow> bool" where
  "IS_CONTINUATION_BYTE ch = (0x80 \<le> ch \<and> ch < 0xC0)"

datatype utf8_step =
    Decoded int nat
  | Invalid string nat

text \<open>
  One step at the byte \<open>ch\<close> followed by \<open>rest\<close>: the code point and the number of bytes
  it took, or the reason and the length of the undecodable range.
\<close>

definition utf8_decode_one :: "byte \<Rightarrow> bytes \<Rightarrow> utf8_step" where
  "utf8_decode_one ch rest =
     (if ch < 0x80 then Decoded (uint ch) 1
      else if ch < 0xE0 then
        (if ch < 0xC2 then Invalid ''invalid start byte'' 1
         else (case rest of
                 [] \<Rightarrow> Invalid ''unexpected end of data'' 1
               | ch2 # _ \<Rightarrow>
                   if \<not> IS_CONTINUATION_BYTE ch2 then Invalid ''invalid continuation byte'' 1
                   else Decoded (uint ch * 64 + uint ch2 - (0xC0 * 64 + 0x80)) 2))
      else if ch < 0xF0 then
        (case rest of
           [] \<Rightarrow> Invalid ''unexpected end of data'' 1
         | [ch2] \<Rightarrow>
             if \<not> IS_CONTINUATION_BYTE ch2 \<or> (if ch2 < 0xA0 then ch = 0xE0 else ch = 0xED)
             then Invalid ''invalid continuation byte'' 1
             else Invalid ''unexpected end of data'' 2
         | ch2 # ch3 # _ \<Rightarrow>
             if \<not> IS_CONTINUATION_BYTE ch2 then Invalid ''invalid continuation byte'' 1
             else if ch = 0xE0 \<and> ch2 < 0xA0 then Invalid ''invalid continuation byte'' 1
             else if ch = 0xED \<and> 0xA0 \<le> ch2 then Invalid ''invalid continuation byte'' 1
             else if \<not> IS_CONTINUATION_BYTE ch3 then Invalid ''invalid continuation byte'' 2
             else Decoded (uint ch * 4096 + uint ch2 * 64 + uint ch3
                            - (0xE0 * 4096 + 0x80 * 64 + 0x80)) 3)
      else if ch < 0xF5 then
        (case rest of
           [] \<Rightarrow> Invalid ''unexpected end of data'' 1
         | [ch2] \<Rightarrow>
             if \<not> IS_CONTINUATION_BYTE ch2 \<or> (if ch2 < 0x90 then ch = 0xF0 else ch = 0xF4)
             then Invalid ''invalid continuation byte'' 1
             else Invalid ''unexpected end of data'' 2
         | [ch2, ch3] \<Rightarrow>
             if \<not> IS_CONTINUATION_BYTE ch2 \<or> (if ch2 < 0x90 then ch = 0xF0 else ch = 0xF4)
             then Invalid ''invalid continuation byte'' 1
             else if \<not> IS_CONTINUATION_BYTE ch3 then Invalid ''invalid continuation byte'' 2
             else Invalid ''unexpected end of data'' 3
         | ch2 # ch3 # ch4 # _ \<Rightarrow>
             if \<not> IS_CONTINUATION_BYTE ch2 then Invalid ''invalid continuation byte'' 1
             else if ch = 0xF0 \<and> ch2 < 0x90 then Invalid ''invalid continuation byte'' 1
             else if ch = 0xF4 \<and> 0x90 \<le> ch2 then Invalid ''invalid continuation byte'' 1
             else if \<not> IS_CONTINUATION_BYTE ch3 then Invalid ''invalid continuation byte'' 2
             else if \<not> IS_CONTINUATION_BYTE ch4 then Invalid ''invalid continuation byte'' 3
             else Decoded (uint ch * 262144 + uint ch2 * 4096 + uint ch3 * 64 + uint ch4
                            - (0xF0 * 262144 + 0x80 * 4096 + 0x80 * 64 + 0x80)) 4)
      else Invalid ''invalid start byte'' 1)"

datatype errors = Strict | Ignore | Replace

text \<open>
  \<open>data.decode('utf-8', errors=h)\<close>. On an undecodable range \<open>strict\<close> raises,
  \<open>ignore\<close> puts nothing in the result, \<open>replace\<close> puts U+FFFD there; the two
  lenient handlers go on after the range.
\<close>

fun bytes_decode :: "errors \<Rightarrow> bytes \<Rightarrow> str result" where
  "bytes_decode h [] = Inr []"
| "bytes_decode h (ch # rest) =
     (case utf8_decode_one ch rest of
        Decoded cp n \<Rightarrow>
          (case bytes_decode h (drop (n - 1) rest) of
             Inl e \<Rightarrow> Inl e
           | Inr t \<Rightarrow> Inr (cp # t))
      | Invalid reason n \<Rightarrow>
          (case h of
             Strict \<Rightarrow> Inl (UnicodeDecodeError reason)
           | Ignore \<Rightarrow> bytes_decode h (drop (n - 1) rest)
           | Replace \<Rightarrow>
               (case bytes_decode h (drop (n - 1) rest) of
                  Inl e \<Rightarrow> Inl e
                | Inr t \<Rightarrow> Inr (0xFFFD # t))))"

section \<open>Honeypot.log_activity and Honeypot.handle_connection\<close>

text \<open>\<open>str(n)\<close> for an integer, as the f-strings print a port.\<close>

function str_digits :: "int \<Rightarrow> string" where
  "str_digits n =
     (if n < 10 then [char_of (48 + n)]
      else str_digits (n div 10) @ [char_of (48 + n mod 10)])"
  by pat_completeness auto
termination
  by (relation "measure nat") auto

definition str_int :: "int \<Rightarrow> string" where
  "str_int n = (if n < 0 then CHR ''-'' # str_digits (- n) else str_digits n)"

text \<open>
  \<open>s.encode()\<close>, the UTF-8 bytes of a string of code points below 256, and a bytes
  literal \<open>b"..."\<close>.
\<close>

definition str_encode :: "string \<Rightarrow> bytes" where
  "str_encode s =
     concat (map (\<lambda>c. if code c < 128 then [of_char c]
                       else [0xC0 + of_nat (code c div 64), 0x80 + of_nat (code c mod 64)]) s)"

definition bytes_literal :: "string \<Rightarrow> bytes" where
  "bytes_literal s = map of_char s"

definition CRLF :: string where
  "CRLF = [CHR 0x0D, CHR 0x0A]"

text \<open>The dictionary \<open>entry\<close> of \<open>log_activity\<close>, one field for each of its four keys.\<close>

record activity_record =
  entry_timestamp :: string
  entry_remote_ip :: string
  entry_port :: int
  entry_data :: str

text \<open>
  What a thread does to the world outside it, in the order it does it: the calls on the
  connection with the way each ended, the append of one line to the log file with the way
  it ended, and, for a listener, the calls on the listening socket and the handler threads
  it starts.
\<close>

datatype event =
    Sendall bytes "unit result"
  | Recv "bytes result"
  | LogWrite activity_record "unit result"
  | Close
  | Accept "(string \<times> int) result"
  | StartHandler string int "unit result"

text \<open>
  How a piece of code ended: it ran to its end, an exception left it, or it is still
  waiting in a blocking call that the script of the world does not answer.
\<close>

datatype ending = Normal | Raised exn | Waiting

record run =
  trace :: "event list"
  printed :: "string list"
  ending :: ending

text \<open>
  The world seen from one connection handler: what the successive \<open>recv(1024)\<close> calls
  return (empty bytes when the peer has closed), how the \<open>k\<close>-th \<open>sendall\<close> ends, how the
  append of the \<open>k\<close>-th log line ends (opening the file, \<open>json.dump\<close>, the newline, closing
  the file), and the clock at the \<open>k\<close>-th call of \<open>log_activity\<close>.
\<close>

record world =
  recv_script :: "bytes result list"
  sendall_result :: "nat \<Rightarrow> unit result"
  write_result :: "nat \<Rightarrow> unit result"
  now :: "nat \<Rightarrow> string"

text \<open>
  \<open>log_activity\<close>, the \<open>k\<close>-th call in its handler. The entry is built before the
  \<open>try\<close>, so an exception of \<open>decode\<close> would leave the method; the \<open>try\<close> catches what
  the write raises and prints it.
\<close>

definition log_activity :: "world \<Rightarrow> nat \<Rightarrow> int \<Rightarrow> string \<Rightarrow> bytes \<Rightarrow> run" where
  "log_activity w k port remote_ip data =
     (case bytes_decode Ignore data of
        Inl e \<Rightarrow> \<lparr>trace = [], printed = [], ending = Raised e\<rparr>
      | Inr decoded \<Rightarrow>
          (let entry = \<lparr>entry_timestamp = now w k, entry_remote_ip = remote_ip,
                        entry_port = port, entry_data = decoded\<rparr>
           in case write_result w k of
                Inr _ \<Rightarrow> \<lparr>trace = [LogWrite entry (Inr ())], printed = [], ending = Normal\<rparr>
              | Inl e \<Rightarrow>
                  \<lparr>trace = [LogWrite entry (Inl e)],
                   printed = [''[!] Failed to write log entry: '' @ str_exn e],
                   ending = Normal\<rparr>))"

definition service_banners :: "(int \<times> string) list" where
  "service_banners =
     [(21, ''220 FTP server ready'' @ CRLF),
      (22, ''SSH-2.0-OpenSSH_8.2p1 Ubuntu-4ubuntu0.1'' @ CRLF),
      (80, ''HTTP/1.1 200 OK'' @ CRLF @ ''Server: Apache/2.4.41 (Ubuntu)'' @ CRLF @ CRLF),
      (443, ''HTTP/1.1 200 OK'' @ CRLF @ ''Server: Apache/2.4.41 (Ubuntu)'' @ CRLF @ CRLF)]"

definition reply :: bytes where
  "reply = bytes_literal (''Command not recognized.'' @ CRLF)"

text \<open>
  The \<open>while True\<close> loop of \<open>handle_connection\<close>, with the number of \<open>sendall\<close> calls and
  of \<open>log_activity\<close> calls made so far and what the coming \<open>recv\<close> calls return.
\<close>

fun recv_loop :: "world \<Rightarrow> int \<Rightarrow> string \<Rightarrow> nat \<Rightarrow> nat \<Rightarrow> bytes result list \<Rightarrow> run" where
  "recv_loop w port remote_ip ns nl [] = \<lparr>trace = [], printed = [], ending = Waiting\<rparr>"
| "recv_loop w port remote_ip ns nl (Inl e # rs) =
     \<lparr>trace = [Recv (Inl e)], printed = [], ending = Raised e\<rparr>"
| "recv_loop w port remote_ip ns nl (Inr data # rs) =
     (if data = [] then \<lparr>trace = [Recv (Inr data)], printed = [], ending = Normal\<rparr>
      else
        (let la = log_activity w nl port remote_ip data in
         if ending la \<noteq> Normal
         then \<lparr>trace = Recv (Inr data) # trace la, printed = printed la, ending = ending la\<rparr>
         else
           (case sendall_result w ns of
              Inl e \<Rightarrow>
                \<lparr>trace = Recv (Inr data) # trace la @ [Sendall reply (Inl e)],
                 printed = printed la, ending = Raised e\<rparr>
            | Inr _ \<Rightarrow>
                (let r = recv_loop w port remote_ip (Suc ns) (Suc nl) rs
                 in \<lparr>trace = Recv (Inr data) # trace la @ Sendall reply (Inr ()) # trace r,
                     printed = printed la @ printed r, ending = ending r\<rparr>))))"

text \<open>The \<open>try\<close> block of \<open>handle_connection\<close>: the banner, then the loop.\<close>

definition handle_body :: "world \<Rightarrow> string \<Rightarrow> int \<Rightarrow> run" where
  "handle_body w remote_ip port =
     (case map_of service_banners port of
        None \<Rightarrow> recv_loop w port remote_ip 0 0 (recv_script w)
      | Some banner \<Rightarrow>
          if banner = [] then recv_loop w port remote_ip 0 0 (recv_script w)
          else
            (case sendall_result w 0 of
               Inl e \<Rightarrow>
                 \<lparr>trace = [Sendall (str_encode banner) (Inl e)], printed = [],
                  ending = Raised e\<rparr>
             | Inr _ \<Rightarrow>
                 (let r = recv_loop w port remote_ip 1 0 (recv_script w)
                  in \<lparr>trace = Sendall (str_encode banner) (Inr ()) # trace r,
                      printed = printed r, ending = ending r\<rparr>)))"

text \<open>
  \<open>handle_connection\<close>: \<open>except Exception\<close> prints what left the \<open>try\<close> block, and
  \<open>finally\<close> closes the socket. A handler still waiting in \<open>recv\<close> has done neither.
\<close>

definition handle_connection :: "world \<Rightarrow> string \<Rightarrow> int \<Rightarrow> run" where
  "handle_connection w remote_ip port =
     (let b = handle_body w remote_ip port
      in case ending b of
           Waiting \<Rightarrow> b
         | Normal \<Rightarrow> \<lparr>trace = trace b @ [Close], printed = printed b, ending = Normal\<rparr>
         | Raised e \<Rightarrow>
             \<lparr>trace = trace b @ [Close],
              printed = printed b
                @ [''[!] Error handling connection on port '' @ str_int port @ '': '' @ str_exn e],
              ending = Normal\<rparr>)"

section \<open>Honeypot.start_listener\<close>

text \<open>
  The world seen from one listener: how creating the socket, \<open>setsockopt\<close>, \<open>bind\<close> and
  \<open>listen\<close> end, what the successive \<open>accept()\<close> calls return (the address of the
  peer: its IP and port), and how the \<open>k\<close>-th \<open>handler.start()\<close> ends.
\<close>

record listener_world =
  socket_result :: "unit result"
  setsockopt_result :: "unit result"
  bind_result :: "unit result"
  listen_result :: "unit result"
  accept_script :: "(string \<times> int) result list"
  start_result :: "nat \<Rightarrow> unit result"

definition accepted_line :: "int \<Rightarrow> string \<times> int \<Rightarrow> string" where
  "accepted_line port addr =
     ''[*] Accepted connection from '' @ fst addr @ '':'' @ str_int (snd addr)
       @ '' on port '' @ str_int port"

text \<open>The \<open>while True\<close> loop of \<open>start_listener\<close>, after \<open>k\<close> handler threads.\<close>

fun accept_loop :: "listener_world \<Rightarrow> int \<Rightarrow> nat \<Rightarrow> (string \<times> int) result list \<Rightarrow> run" where
  "accept_loop lw port k [] = \<lparr>trace = [], printed = [], ending = Waiting\<rparr>"
| "accept_loop lw port k (Inl e # rs) =
     \<lparr>trace = [Accept (Inl e)], printed = [], ending = Raised e\<rparr>"
| "accept_loop lw port k (Inr addr # rs) =
     (case start_result lw k of
        Inl e \<Rightarrow>
          \<lparr>trace = [Accept (Inr addr), StartHandler (fst addr) port (Inl e)],
           printed = [accepted_line port addr], ending = Raised e\<rparr>
      | Inr _ \<Rightarrow>
          (let r = accept_loop lw port (Suc k) rs
           in \<lparr>trace = Accept (Inr addr) # StartHandler (fst addr) port (Inr ()) # trace r,
               printed = accepted_line port addr # printed r, ending = ending r\<rparr>))"

text \<open>The \<open>try\<close> block of \<open>start_listener\<close>: the four set-up calls, then the loop.\<close>

definition listener_body :: "listener_world \<Rightarrow> string \<Rightarrow> int \<Rightarrow> run" where
  "listener_body lw ip port =
     (case socket_result lw of
        Inl e \<Rightarrow> \<lparr>trace = [], printed = [], ending = Raised e\<rparr>
      | Inr _ \<Rightarrow>
     (case setsockopt_result lw of
        Inl e \<Rightarrow> \<lparr>trace = [], printed = [], ending = Raised e\<rparr>
      | Inr _ \<Rightarrow>
     (case bind_result lw of
        Inl e \<Rightarrow> \<lparr>trace = [], printed = [], ending = Raised e\<rparr>
      | Inr _ \<Rightarrow>
     (case listen_result lw of
        Inl e \<Rightarrow> \<lparr>trace = [], printed = [], ending = Raised e\<rparr>
      | Inr _ \<Rightarrow>
          (let r = accept_loop lw port 0 (accept_script lw)
           in \<lparr>trace = trace r,
               printed = (''[*] Listening on '' @ ip @ '':'' @ str_int port) # printed r,
               ending = ending r\<rparr>)))))"

text \<open>\<open>start_listener\<close>: \<open>except Exception\<close> prints what left the \<open>try\<close> block and returns.\<close>

definition start_listener :: "listener_world \<Rightarrow> string \<Rightarrow> int \<Rightarrow> run" where
  "start_listener lw ip port =
     (let b = listener_body lw ip port
      in case ending b of
           Raised e \<Rightarrow>
             \<lparr>trace = trace b,
              printed = printed b
                @ [''[!] Error starting listener on port '' @ str_int port @ '': '' @ str_exn e],
              ending = Normal\<rparr>
         | _ \<Rightarrow> b)"

text \<open>What a listener does for connections it accepts and hands to handler threads.\<close>

fun dispatched :: "int \<Rightarrow> (string \<times> int) list \<Rightarrow> event list" where
  "dispatched port [] = []"
| "dispatched port (addr # conns) =
     Accept (Inr addr) # StartHandler (fst addr) port (Inr ()) # dispatched port conns"

section \<open>Reading a trace\<close>

text \<open>A non-empty chunk received, a record handed to the log, the fixed reply sent.\<close>

fun is_chunk :: "event \<Rightarrow> bool" where
  "is_chunk (Recv (Inr data)) = (data \<noteq> [])"
| "is_chunk _ = False"

fun is_record :: "event \<Rightarrow> bool" where
  "is_record (LogWrite entry r) = True"
| "is_record _ = False"

fun is_reply :: "event \<Rightarrow> bool" where
  "is_reply (Sendall b r) = (b = reply)"
| "is_reply _ = False"

text \<open>What the peer and the socket see of a handler: everything but the log.\<close>

definition socket_events :: "event list \<Rightarrow> event list" where
  "socket_events tr = filter (\<lambda>ev. \<not> is_record ev) tr"

text \<open>
  Sample worlds: every \<open>sendall\<close> and every log write succeeds, the clock stands still.
\<close>

definition calm_world :: "bytes result list \<Rightarrow> world" where
  "calm_world script =
     \<lparr>recv_script = script, sendall_result = (\<lambda>k. Inr ()), write_result = (\<lambda>k. Inr ()),
      now = (\<lambda>k. ''2024-05-01T12:00:00'')\<rparr>"

definition calm_listener :: "(string \<times> int) result list \<Rightarrow> listener_world" where
  "calm_listener script =
     \<lparr>socket_result = Inr (), setsockopt_result = Inr (), bind_result = Inr (),
      listen_result = Inr (), accept_script = script, start_result = (\<lambda>k. Inr ())\<rparr>"

text \<open>The text that \<open>log_activity\<close> puts in the field \<open>data\<close> for the bytes received.\<close>

definition logged_text :: "bytes \<Rightarrow> str" where
  "logged_text data = (case bytes_decode Ignore data of Inr t \<Rightarrow> t | Inl e \<Rightarrow> [])"

definition entry_of :: "world \<Rightarrow> nat \<Rightarrow> int \<Rightarrow> string \<Rightarrow> bytes \<Rightarrow> activity_record" where
  "entry_of w k port remote_ip data =
     \<lparr>entry_timestamp = now w k, entry_remote_ip = remote_ip, entry_port = port,
      entry_data = logged_text data\<rparr>"

text \<open>A world whose \<open>n\<close>-th \<open>sendall\<close> fails, and one whose log writes all fail.\<close>

definition broken_pipe_world :: "bytes result list \<Rightarrow> nat \<Rightarrow> world" where
  "broken_pipe_world script n =
     (calm_world script)
       \<lparr>sendall_result := (\<lambda>k. if k = n then Inl (OSError ''Broken pipe'') else Inr ())\<rparr>"

definition disk_full_world :: "bytes result list \<Rightarrow> world" where
  "disk_full_world script =
     (calm_world script)\<lparr>write_result := (\<lambda>k. Inl (OSError ''No space left on device''))\<rparr>"

section \<open>Properties of the port configuration\<close>























section \<open>Properties of the decoding\<close>

lemma lenient_decode_total: "h \<noteq> Strict \<Longrightarrow> \<exists>t. bytes_decode h data = Inr t"
  by (induction h data rule: bytes_decode.induct)
     (auto split: utf8_step.splits errors.splits sum.splits)

lemma strict_decode_ignore:
  "bytes_decode Strict data = Inr t \<Longrightarrow> bytes_decode Ignore data = Inr t"
proof (induction "length data" arbitrary: data t rule: less_induct)
  case less
  show ?case
  proof (cases data)
    case Nil
    with less.prems show ?thesis by simp
  next
    case (Cons ch rest)
    show ?thesis
    proof (cases "utf8_decode_one ch rest")
      case (Decoded cp n)
      from less.prems Cons Decoded obtain t' where
        s: "bytes_decode Strict (drop (n - 1) rest) = Inr t'" and t: "t = cp # t'"
        by (auto split: sum.splits)
      have "length (drop (n - 1) rest) < length data" using Cons by simp
      from less.hyps [OF this s] show ?thesis using Cons Decoded t by simp
    next
      case (Invalid reason n)
      with less.prems Cons show ?thesis by simp
    qed
  qed
qed

lemma ignore_decode_length: "bytes_decode Ignore data = Inr t \<Longrightarrow> length t \<le> length data"
proof (induction "length data" arbitrary: data t rule: less_induct)
  case less
  show ?case
  proof (cases data)
    case Nil
    with less.prems show ?thesis by simp
  next
    case (Cons ch rest)
    have len: "length (drop (n - 1) rest) < length data" for n using Cons by simp
    show ?thesis
    proof (cases "utf8_decode_one ch rest")
      case (Decoded cp n)
      from less.prems Cons Decoded obtain t' where
        s: "bytes_decode Ignore (drop (n - 1) rest) = Inr t'" and t: "t = cp # t'"
        by (auto split: sum.splits)
      from less.hyps [OF len s] show ?thesis using Cons t by simp
    next
      case (Invalid reason n)
      with less.prems Cons have s: "bytes_decode Ignore (drop (n - 1) rest) = Inr t" by simp
      from less.hyps [OF len s] show ?thesis using Cons by simp
    qed
  qed
qed

text \<open>
  C3, as amended: for every received byte sequence, decoding for the field \<open>data\<close> never
  fails and \<open>log_activity\<close> hands exactly one record with the decoded text to the log. The
  decoding drops undecodable bytes, it does not replace them: the text is no longer than
  the bytes, bytes that are valid UTF-8 are logged as the text they encode, and an
  undecodable range adds nothing to the text.
\<close>

theorem decode_drops_undecodable:
  "(\<exists>t. bytes_decode Ignore data = Inr t
        \<and> length t \<le> length data
        \<and> log_activity w k port remote_ip data
            = \<lparr>trace = [LogWrite \<lparr>entry_timestamp = now w k, entry_remote_ip = remote_ip,
                                  entry_port = port, entry_data = t\<rparr> (write_result w k)],
               printed = (case write_result w k of
                            Inl e \<Rightarrow> [''[!] Failed to write log entry: '' @ str_exn e]
                          | Inr u \<Rightarrow> []),
               ending = Normal\<rparr>)
   \<and> (bytes_decode Strict data = Inr s \<longrightarrow> bytes_decode Ignore data = Inr s)
   \<and> (utf8_decode_one ch rest = Invalid reason n \<longrightarrow>
        bytes_decode Ignore (ch # rest) = bytes_decode Ignore (drop (n - 1) rest))"
proof -
  obtain t where t: "bytes_decode Ignore data = Inr t"
    using lenient_decode_total [of Ignore data] by auto
  have "log_activity w k port remote_ip data
            = \<lparr>trace = [LogWrite \<lparr>entry_timestamp = now w k, entry_remote_ip = remote_ip,
                                  entry_port = port, entry_data = t\<rparr> (write_result w k)],
               printed = (case write_result w k of
                            Inl e \<Rightarrow> [''[!] Failed to write log entry: '' @ str_exn e]
                          | Inr u \<Rightarrow> []),
               ending = Normal\<rparr>"
    using t by (simp add: log_activity_def split: sum.splits)
  with t ignore_decode_length [OF t] strict_decode_ignore [of data s] show ?thesis
    by simp
qed

theorem decode_drops_undecodable_witness:
  "bytes_decode Strict [0x6C, 0x73, 0x0A] = Inr [108, 115, 10]
   \<and> bytes_decode Ignore [0x6C, 0x73, 0x0A] = Inr [108, 115, 10]
   \<and> utf8_decode_one 0xFF [0x6C, 0x73] = Invalid ''invalid start byte'' 1
   \<and> bytes_decode Ignore [0xFF, 0x6C, 0x73] = bytes_decode Ignore [0x6C, 0x73]"
proof -
  have h1: "bytes_decode Strict [0x6C, 0x73, 0x0A] = Inr [108, 115, 10]" by code_simp
  have h2: "utf8_decode_one 0xFF [0x6C, 0x73] = Invalid ''invalid start byte'' 1" by code_simp
  show ?thesis
    using h1 h2
      decode_drops_undecodable [of "[0x6C, 0x73, 0x0A]" "calm_world []" 0 22 "''10.0.0.1''"
         "[108, 115, 10]" "0xFF" "[0x6C, 0x73]" "''invalid start byte''" 1]
    by simp
qed

text \<open>
  The claim C3 as written fails: for the bytes \<open>41 FF 42\<close> the logged text is \<open>AB\<close>,
  with no replacement character where the byte \<open>FF\<close> stood; decoding with
  \<open>errors='replace'\<close> would give \<open>A\<close>, U+FFFD, \<open>B\<close>.
\<close>

theorem decode_replaces_counterexample:
  "log_activity (calm_world []) 0 22 ''10.0.0.1'' [0x41, 0xFF, 0x42]
     = \<lparr>trace = [LogWrite \<lparr>entry_timestamp = ''2024-05-01T12:00:00'',
                           entry_remote_ip = ''10.0.0.1'', entry_port = 22,
                           entry_data = [0x41, 0x42]\<rparr> (Inr ())],
        printed = [], ending = Normal\<rparr>
   \<and> bytes_decode Replace [0x41, 0xFF, 0x42] = Inr [0x41, 0xFFFD, 0x42]"
  by code_simp

section \<open>Properties of the connection handler\<close>

lemma decode_logged_text: "bytes_decode Ignore data = Inr (logged_text data)"
  using lenient_decode_total [of Ignore data] by (auto simp: logged_text_def)

lemma log_activity_eq:
  "log_activity w k port remote_ip data
     = \<lparr>trace = [LogWrite (entry_of w k port remote_ip data) (write_result w k)],
        printed = (case write_result w k of
                     Inl e \<Rightarrow> [''[!] Failed to write log entry: '' @ str_exn e]
                   | Inr u \<Rightarrow> []),
        ending = Normal\<rparr>"
  by (simp add: log_activity_def decode_logged_text entry_of_def split: sum.splits)

lemma recv_loop_chunk:
  "data \<noteq> [] \<Longrightarrow>
   recv_loop w port remote_ip ns nl (Inr data # rs) =
     (case sendall_result w ns of
        Inl e \<Rightarrow>
          \<lparr>trace = [Recv (Inr data),
                    LogWrite (entry_of w nl port remote_ip data) (write_result w nl),
                    Sendall reply (Inl e)],
           printed = printed (log_activity w nl port remote_ip data), ending = Raised e\<rparr>
      | Inr u \<Rightarrow>
          \<lparr>trace = Recv (Inr data)
                    # LogWrite (entry_of w nl port remote_ip data) (write_result w nl)
                    # Sendall reply (Inr ())
                    # trace (recv_loop w port remote_ip (Suc ns) (Suc nl) rs),
           printed = printed (log_activity w nl port remote_ip data)
                    @ printed (recv_loop w port remote_ip (Suc ns) (Suc nl) rs),
           ending = ending (recv_loop w port remote_ip (Suc ns) (Suc nl) rs)\<rparr>)"
  by (simp add: log_activity_eq Let_def recv_loop.simps(3) split: sum.splits)

declare recv_loop.simps(3) [simp del]

lemma recv_loop_eof:
  "recv_loop w port remote_ip ns nl (Inr [] # rs)
     = \<lparr>trace = [Recv (Inr [])], printed = [], ending = Normal\<rparr>"
  by (simp add: recv_loop.simps(3))

lemma recv_loop_chunk_followed:
  "trace (recv_loop w port remote_ip ns nl rs) = pre @ Recv (Inr data) # post \<Longrightarrow> data \<noteq> [] \<Longrightarrow>
   \<exists>k j rest. post = LogWrite (entry_of w k port remote_ip data) (write_result w k)
                        # Sendall reply (sendall_result w j) # rest"
proof (induction rs arbitrary: ns nl pre)
  case Nil
  then show ?case by simp
next
  case (Cons a rs)
  show ?case
  proof (cases a)
    case (Inl e)
    with Cons.prems show ?thesis by (auto simp: Cons_eq_append_conv)
  next
    case (Inr d)
    show ?thesis
    proof (cases "d = []")
      case True
      with Cons.prems Inr show ?thesis by (auto simp: Cons_eq_append_conv recv_loop_eof)
    next
      case False
      note eq = recv_loop_chunk [OF False, of w port remote_ip ns nl rs]
      show ?thesis
      proof (cases "sendall_result w ns")
        case (Inl e)
        with Cons.prems Inr eq
        have "post = [LogWrite (entry_of w nl port remote_ip data) (write_result w nl),
                      Sendall reply (sendall_result w ns)]"
          by (auto simp: Cons_eq_append_conv)
        then show ?thesis by blast
      next
        case (Inr u)
        with Cons.prems \<open>a = Inr d\<close> eq
        have "pre = [] \<and> d = data
               \<and> post = LogWrite (entry_of w nl port remote_ip data) (write_result w nl)
                          # Sendall reply (sendall_result w ns)
                          # trace (recv_loop w port remote_ip (Suc ns) (Suc nl) rs)
              \<or> (\<exists>pre'. trace (recv_loop w port remote_ip (Suc ns) (Suc nl) rs)
                          = pre' @ Recv (Inr data) # post)"
          by (auto simp: Cons_eq_append_conv)
        then show ?thesis using Cons.IH Cons.prems(2) by blast
      qed
    qed
  qed
qed

lemma recv_loop_counts:
  "length (filter is_record (trace (recv_loop w port remote_ip ns nl rs)))
     = length (filter is_chunk (trace (recv_loop w port remote_ip ns nl rs)))
   \<and> length (filter is_reply (trace (recv_loop w port remote_ip ns nl rs)))
     = length (filter is_chunk (trace (recv_loop w port remote_ip ns nl rs)))"
proof (induction rs arbitrary: ns nl)
  case Nil
  show ?case by simp
next
  case (Cons a rs)
  show ?case
  proof (cases a)
    case (Inl e)
    then show ?thesis by simp
  next
    case (Inr d)
    show ?thesis
    proof (cases "d = []")
      case True
      with Inr show ?thesis by (simp add: recv_loop_eof)
    next
      case False
      show ?thesis
        using Cons.IH [of "Suc ns" "Suc nl"] Inr False
        by (simp add: recv_loop_chunk split: sum.splits)
    qed
  qed
qed

lemma recv_loop_no_close: "Close \<notin> set (trace (recv_loop w port remote_ip ns nl rs))"
proof (induction rs arbitrary: ns nl)
  case Nil
  show ?case by simp
next
  case (Cons a rs)
  show ?case
  proof (cases a)
    case (Inl e)
    then show ?thesis by simp
  next
    case (Inr d)
    show ?thesis
    proof (cases "d = []")
      case True
      with Inr show ?thesis by (simp add: recv_loop_eof)
    next
      case False
      show ?thesis
        using Cons.IH [of "Suc ns" "Suc nl"] Inr False
        by (simp add: recv_loop_chunk split: sum.splits)
    qed
  qed
qed

lemma recv_loop_starts_with_recv:
  "trace (recv_loop w port remote_ip ns nl rs) = []
     \<and> ending (recv_loop w port remote_ip ns nl rs) = Waiting
   \<or> (\<exists>r rest. trace (recv_loop w port remote_ip ns nl rs) = Recv r # rest)"
proof (cases rs)
  case Nil
  then show ?thesis by simp
next
  case (Cons a rs')
  show ?thesis
  proof (cases a)
    case (Inl e)
    with Cons show ?thesis by simp
  next
    case (Inr d)
    show ?thesis
    proof (cases "d = []")
      case True
      with Inr Cons show ?thesis by (simp add: recv_loop_eof)
    next
      case False
      with Inr Cons show ?thesis by (simp add: recv_loop_chunk split: sum.splits)
    qed
  qed
qed

lemma handle_body_no_close: "Close \<notin> set (trace (handle_body w remote_ip port))"
  using recv_loop_no_close [of w port remote_ip]
  by (auto simp: handle_body_def Let_def split: option.splits sum.splits)

lemma handle_connection_cases:
  "handle_connection w remote_ip port =
     (case ending (handle_body w remote_ip port) of
        Waiting \<Rightarrow> handle_body w remote_ip port
      | Normal \<Rightarrow>
          \<lparr>trace = trace (handle_body w remote_ip port) @ [Close],
           printed = printed (handle_body w remote_ip port), ending = Normal\<rparr>
      | Raised e \<Rightarrow>
          \<lparr>trace = trace (handle_body w remote_ip port) @ [Close],
           printed = printed (handle_body w remote_ip port)
             @ [''[!] Error handling connection on port '' @ str_int port @ '': '' @ str_exn e],
           ending = Normal\<rparr>)"
  by (simp add: handle_connection_def Let_def)

text \<open>
  C9: on every path on which \<open>handle_connection\<close> returns (the peer closed, the banner
  could not be sent, a \<open>recv\<close> failed, a reply could not be sent), the socket is closed
  exactly once, as the last thing the handler does. No exception leaves the handler; a
  handler that has not returned is waiting in \<open>recv\<close> and has not closed the socket.
\<close>

theorem socket_closed_exactly_once:
  "(ending (handle_connection w remote_ip port) = Normal \<longrightarrow>
      count_list (trace (handle_connection w remote_ip port)) Close = 1
      \<and> last (trace (handle_connection w remote_ip port)) = Close)
   \<and> (ending (handle_connection w remote_ip port) \<noteq> Normal \<longrightarrow>
      ending (handle_connection w remote_ip port) = Waiting
      \<and> count_list (trace (handle_connection w remote_ip port)) Close = 0)"
proof -
  have nc: "count_list (trace (handle_body w remote_ip port)) Close = 0"
    using handle_body_no_close [of w remote_ip port] by (simp add: count_list_0_iff)
  show ?thesis
    by (cases "ending (handle_body w remote_ip port)")
       (simp_all add: handle_connection_cases nc)
qed

theorem socket_closed_exactly_once_witness:
  "ending (handle_connection (calm_world [Inr []]) ''10.0.0.1'' 22) = Normal
   \<and> count_list (trace (handle_connection (calm_world [Inr []]) ''10.0.0.1'' 22)) Close = 1
   \<and> ending (handle_connection (broken_pipe_world [] 0) ''10.0.0.1'' 21) = Normal
   \<and> count_list (trace (handle_connection (broken_pipe_world [] 0) ''10.0.0.1'' 21)) Close = 1
   \<and> ending (handle_connection (calm_world [Inl (OSError ''Connection reset by peer'')])
        ''10.0.0.1'' 80) = Normal
   \<and> count_list (trace (handle_connection (calm_world [Inl (OSError ''Connection reset by peer'')])
        ''10.0.0.1'' 80)) Close = 1
   \<and> ending (handle_connection (broken_pipe_world [Inr [0x6C, 0x73, 0x0A]] 1) ''10.0.0.1'' 22)
       = Normal
   \<and> count_list (trace (handle_connection (broken_pipe_world [Inr [0x6C, 0x73, 0x0A]] 1)
        ''10.0.0.1'' 22)) Close = 1
   \<and> ending (handle_connection (calm_world [Inr [0x6C, 0x73, 0x0A]]) ''10.0.0.1'' 22) = Waiting
   \<and> count_list (trace (handle_connection (calm_world [Inr [0x6C, 0x73, 0x0A]]) ''10.0.0.1'' 22))
        Close = 0"
proof -
  have e1: "ending (handle_connection (calm_world [Inr []]) ''10.0.0.1'' 22) = Normal"
    by code_simp
  have e2: "ending (handle_connection (broken_pipe_world [] 0) ''10.0.0.1'' 21) = Normal"
    by code_simp
  have e3: "ending (handle_connection (calm_world [Inl (OSError ''Connection reset by peer'')])
        ''10.0.0.1'' 80) = Normal"
    by code_simp
  have e4: "ending (handle_connection (broken_pipe_world [Inr [0x6C, 0x73, 0x0A]] 1)
        ''10.0.0.1'' 22) = Normal"
    by code_simp
  have e5: "ending (handle_connection (calm_world [Inr [0x6C, 0x73, 0x0A]]) ''10.0.0.1'' 22)
        = Waiting"
    by code_simp
  show ?thesis
    using e1 e2 e3 e4 e5
      socket_closed_exactly_once [of "calm_world [Inr []]" "''10.0.0.1''" 22]
      socket_closed_exactly_once [of "broken_pipe_world [] 0" "''10.0.0.1''" 21]
      socket_closed_exactly_once [of "calm_world [Inl (OSError ''Connection reset by peer'')]"
        "''10.0.0.1''" 80]
      socket_closed_exactly_once [of "broken_pipe_world [Inr [0x6C, 0x73, 0x0A]] 1"
        "''10.0.0.1''" 22]
      socket_closed_exactly_once [of "calm_world [Inr [0x6C, 0x73, 0x0A]]" "''10.0.0.1''" 22]
    by simp
qed

lemma banner_sent_first:
  "map_of service_banners port = Some banner \<Longrightarrow> banner \<noteq> [] \<Longrightarrow>
   \<exists>rest. trace (handle_connection w remote_ip port)
            = Sendall (str_encode banner) (sendall_result w 0) # rest"
  by (cases "sendall_result w 0";
      cases "ending (recv_loop w port remote_ip 1 0 (recv_script w))")
     (simp_all add: handle_connection_cases handle_body_def Let_def)

lemma no_banner_recv_first:
  assumes "map_of service_banners port = None"
  shows "trace (handle_connection w remote_ip port) = []
         \<or> (\<exists>r rest. trace (handle_connection w remote_ip port) = Recv r # rest)"
proof -
  have b: "handle_body w remote_ip port = recv_loop w port remote_ip 0 0 (recv_script w)"
    using assms by (simp add: handle_body_def)
  from recv_loop_starts_with_recv [of w port remote_ip 0 0 "recv_script w"]
  show ?thesis
    by (cases "ending (recv_loop w port remote_ip 0 0 (recv_script w))")
       (auto simp: handle_connection_cases b)
qed

lemma banner_21:
  "map_of service_banners 21 = Some (''220 FTP server ready'' @ CRLF)
   \<and> str_encode (''220 FTP server ready'' @ CRLF) = bytes_literal (''220 FTP server ready'' @ CRLF)"
  by code_simp

lemma banner_22:
  "map_of service_banners 22 = Some (''SSH-2.0-OpenSSH_8.2p1 Ubuntu-4ubuntu0.1'' @ CRLF)
   \<and> str_encode (''SSH-2.0-OpenSSH_8.2p1 Ubuntu-4ubuntu0.1'' @ CRLF)
       = bytes_literal (''SSH-2.0-OpenSSH_8.2p1 Ubuntu-4ubuntu0.1'' @ CRLF)"
  by code_simp

lemma banner_80:
  "map_of service_banners 80
     = Some (''HTTP/1.1 200 OK'' @ CRLF @ ''Server: Apache/2.4.41 (Ubuntu)'' @ CRLF @ CRLF)
   \<and> map_of service_banners 443
     = Some (''HTTP/1.1 200 OK'' @ CRLF @ ''Server: Apache/2.4.41 (Ubuntu)'' @ CRLF @ CRLF)
   \<and> str_encode (''HTTP/1.1 200 OK'' @ CRLF @ ''Server: Apache/2.4.41 (Ubuntu)'' @ CRLF @ CRLF)
       = bytes_literal (''HTTP/1.1 200 OK'' @ CRLF @ ''Server: Apache/2.4.41 (Ubuntu)'' @ CRLF @ CRLF)"
  by code_simp

lemma no_banner_other_ports:
  "port \<notin> {21, 22, 80, 443} \<Longrightarrow> map_of service_banners port = None"
  by (simp add: service_banners_def)

text \<open>
  C2: on the ports 21, 22, 80 and 443 the first call on an accepted connection is the
  \<open>sendall\<close> of that port's banner, byte for byte, before any \<open>recv\<close>; on any other
  port the handler sends nothing before its first \<open>recv\<close>.
\<close>

theorem banner_before_first_read:
  "(\<exists>rest. trace (handle_connection w remote_ip 21)
      = Sendall (bytes_literal (''220 FTP server ready'' @ CRLF)) (sendall_result w 0) # rest)
   \<and> (\<exists>rest. trace (handle_connection w remote_ip 22)
      = Sendall (bytes_literal (''SSH-2.0-OpenSSH_8.2p1 Ubuntu-4ubuntu0.1'' @ CRLF))
          (sendall_result w 0) # rest)
   \<and> (\<exists>rest. trace (handle_connection w remote_ip 80)
      = Sendall (bytes_literal (''HTTP/1.1 200 OK'' @ CRLF @ ''Server: Apache/2.4.41 (Ubuntu)''
                                 @ CRLF @ CRLF)) (sendall_result w 0) # rest)
   \<and> (\<exists>rest. trace (handle_connection w remote_ip 443)
      = Sendall (bytes_literal (''HTTP/1.1 200 OK'' @ CRLF @ ''Server: Apache/2.4.41 (Ubuntu)''
                                 @ CRLF @ CRLF)) (sendall_result w 0) # rest)
   \<and> (port \<notin> {21, 22, 80, 443} \<longrightarrow>
        trace (handle_connection w remote_ip port) = []
        \<or> (\<exists>r rest. trace (handle_connection w remote_ip port) = Recv r # rest))"
proof -
  have ne: "s @ CRLF \<noteq> []" for s by (simp add: CRLF_def)
  have p21: "\<exists>rest. trace (handle_connection w remote_ip 21)
      = Sendall (bytes_literal (''220 FTP server ready'' @ CRLF)) (sendall_result w 0) # rest"
    using banner_sent_first [of 21 "''220 FTP server ready'' @ CRLF" w remote_ip] banner_21 ne
    by simp
  have p22: "\<exists>rest. trace (handle_connection w remote_ip 22)
      = Sendall (bytes_literal (''SSH-2.0-OpenSSH_8.2p1 Ubuntu-4ubuntu0.1'' @ CRLF))
          (sendall_result w 0) # rest"
    using banner_sent_first [of 22 "''SSH-2.0-OpenSSH_8.2p1 Ubuntu-4ubuntu0.1'' @ CRLF" w remote_ip]
      banner_22 ne by simp
  have ne2: "''HTTP/1.1 200 OK'' @ CRLF @ ''Server: Apache/2.4.41 (Ubuntu)'' @ CRLF @ CRLF \<noteq> []"
    by simp
  have p80: "\<exists>rest. trace (handle_connection w remote_ip 80)
      = Sendall (bytes_literal (''HTTP/1.1 200 OK'' @ CRLF @ ''Server: Apache/2.4.41 (Ubuntu)''
                                 @ CRLF @ CRLF)) (sendall_result w 0) # rest"
    using banner_sent_first [of 80 "''HTTP/1.1 200 OK'' @ CRLF
        @ ''Server: Apache/2.4.41 (Ubuntu)'' @ CRLF @ CRLF" w remote_ip] banner_80 ne2
    by simp
  have p443: "\<exists>rest. trace (handle_connection w remote_ip 443)
      = Sendall (bytes_literal (''HTTP/1.1 200 OK'' @ CRLF @ ''Server: Apache/2.4.41 (Ubuntu)''
                                 @ CRLF @ CRLF)) (sendall_result w 0) # rest"
    using banner_sent_first [of 443 "''HTTP/1.1 200 OK'' @ CRLF
        @ ''Server: Apache/2.4.41 (Ubuntu)'' @ CRLF @ CRLF" w remote_ip] banner_80 ne2
    by simp
  have other: "trace (handle_connection w remote_ip port) = []
        \<or> (\<exists>r rest. trace (handle_connection w remote_ip port) = Recv r # rest)"
    if "port \<notin> {21, 22, 80, 443}"
    using no_banner_recv_first [OF no_banner_other_ports [OF that]] .
  show ?thesis using p21 p22 p80 p443 other by blast
qed

theorem banner_before_first_read_witness:
  "(8080::int) \<notin> {21, 22, 80, 443}
   \<and> trace (handle_connection (calm_world [Inr [0x6C, 0x73, 0x0A], Inr []]) ''10.0.0.1'' 8080)
       = [Recv (Inr [0x6C, 0x73, 0x0A]),
          LogWrite \<lparr>entry_timestamp = ''2024-05-01T12:00:00'', entry_remote_ip = ''10.0.0.1'',
                    entry_port = 8080, entry_data = [108, 115, 10]\<rparr> (Inr ()),
          Sendall reply (Inr ()), Recv (Inr []), Close]
   \<and> (trace (handle_connection (calm_world [Inr [0x6C, 0x73, 0x0A], Inr []]) ''10.0.0.1'' 8080) = []
      \<or> (\<exists>r rest. trace (handle_connection (calm_world [Inr [0x6C, 0x73, 0x0A], Inr []])
             ''10.0.0.1'' 8080) = Recv r # rest))"
proof -
  have h: "(8080::int) \<notin> {21, 22, 80, 443}" by simp
  have t: "trace (handle_connection (calm_world [Inr [0x6C, 0x73, 0x0A], Inr []]) ''10.0.0.1'' 8080)
       = [Recv (Inr [0x6C, 0x73, 0x0A]),
          LogWrite \<lparr>entry_timestamp = ''2024-05-01T12:00:00'', entry_remote_ip = ''10.0.0.1'',
                    entry_port = 8080, entry_data = [108, 115, 10]\<rparr> (Inr ()),
          Sendall reply (Inr ()), Recv (Inr []), Close]"
    by code_simp
  show ?thesis
    using h t
      banner_before_first_read [of "calm_world [Inr [0x6C, 0x73, 0x0A], Inr []]" "''10.0.0.1''" 8080]
    by blast
qed

lemma banner_not_reply:
  "map_of service_banners port = Some banner \<Longrightarrow> str_encode banner \<noteq> reply"
proof -
  assume "map_of service_banners port = Some banner"
  then have "banner = ''220 FTP server ready'' @ CRLF
      \<or> banner = ''SSH-2.0-OpenSSH_8.2p1 Ubuntu-4ubuntu0.1'' @ CRLF
      \<or> banner = ''HTTP/1.1 200 OK'' @ CRLF @ ''Server: Apache/2.4.41 (Ubuntu)'' @ CRLF @ CRLF"
    by (auto simp: service_banners_def split: if_splits)
  moreover have "str_encode (''220 FTP server ready'' @ CRLF) \<noteq> reply" by code_simp
  moreover have "str_encode (''SSH-2.0-OpenSSH_8.2p1 Ubuntu-4ubuntu0.1'' @ CRLF) \<noteq> reply"
    by code_simp
  moreover have "str_encode (''HTTP/1.1 200 OK'' @ CRLF @ ''Server: Apache/2.4.41 (Ubuntu)''
      @ CRLF @ CRLF) \<noteq> reply"
    by code_simp
  ultimately show ?thesis by auto
qed

lemma handle_body_chunk_followed:
  assumes "trace (handle_body w remote_ip port) = pre @ Recv (Inr data) # post" and "data \<noteq> []"
  shows "\<exists>k j rest. post = LogWrite (entry_of w k port remote_ip data) (write_result w k)
                        # Sendall reply (sendall_result w j) # rest"
proof -
  have "\<exists>ns pre'. trace (recv_loop w port remote_ip ns 0 (recv_script w))
          = pre' @ Recv (Inr data) # post"
    using assms(1)
    by (auto simp: handle_body_def Let_def Cons_eq_append_conv
             split: option.splits sum.splits if_splits)
  then show ?thesis using recv_loop_chunk_followed assms(2) by blast
qed

lemma handle_body_counts:
  "length (filter is_record (trace (handle_body w remote_ip port)))
     = length (filter is_chunk (trace (handle_body w remote_ip port)))
   \<and> length (filter is_reply (trace (handle_body w remote_ip port)))
     = length (filter is_chunk (trace (handle_body w remote_ip port)))"
  using recv_loop_counts [of w port remote_ip 0 0 "recv_script w"]
    recv_loop_counts [of w port remote_ip 1 0 "recv_script w"]
    banner_not_reply [of port]
  by (auto simp: handle_body_def Let_def split: option.splits sum.splits)

lemma handle_connection_trace:
  "trace (handle_connection w remote_ip port) = trace (handle_body w remote_ip port)
   \<or> trace (handle_connection w remote_ip port) = trace (handle_body w remote_ip port) @ [Close]"
  by (cases "ending (handle_body w remote_ip port)") (simp_all add: handle_connection_cases)

text \<open>
  C1: in every run of \<open>handle_connection\<close>, each non-empty chunk received is followed at
  once by one record handed to the log (the port, the peer's IP, the decoded chunk) and then
  by one \<open>sendall\<close> of the fixed reply, the bytes of \<open>Command not recognized.\<close> and CR
  LF; so the run has as many records, and as many replies, as non-empty chunks. Whether the
  write of the record and the \<open>sendall\<close> succeed is what the world answers to these calls.
\<close>

theorem one_record_then_one_reply:
  "(trace (handle_connection w remote_ip port) = pre @ Recv (Inr data) # post \<and> data \<noteq> [] \<longrightarrow>
      (\<exists>k j decoded rest.
          bytes_decode Ignore data = Inr decoded
          \<and> post = LogWrite \<lparr>entry_timestamp = now w k, entry_remote_ip = remote_ip,
                             entry_port = port, entry_data = decoded\<rparr> (write_result w k)
                   # Sendall reply (sendall_result w j) # rest))
   \<and> length (filter is_record (trace (handle_connection w remote_ip port)))
       = length (filter is_chunk (trace (handle_connection w remote_ip port)))
   \<and> length (filter is_reply (trace (handle_connection w remote_ip port)))
       = length (filter is_chunk (trace (handle_connection w remote_ip port)))
   \<and> reply = bytes_literal (''Command not recognized.'' @ CRLF)"
proof -
  have a: "\<exists>k j decoded rest.
          bytes_decode Ignore data = Inr decoded
          \<and> post = LogWrite \<lparr>entry_timestamp = now w k, entry_remote_ip = remote_ip,
                             entry_port = port, entry_data = decoded\<rparr> (write_result w k)
                   # Sendall reply (sendall_result w j) # rest"
    if t: "trace (handle_connection w remote_ip port) = pre @ Recv (Inr data) # post"
      and d: "data \<noteq> []"
  proof -
    from handle_connection_trace [of w remote_ip port]
    have "\<exists>post'. trace (handle_body w remote_ip port) = pre @ Recv (Inr data) # post'
                 \<and> (post = post' \<or> post = post' @ [Close])"
    proof
      assume "trace (handle_connection w remote_ip port) = trace (handle_body w remote_ip port)"
      with t show ?thesis by auto
    next
      assume c: "trace (handle_connection w remote_ip port)
                   = trace (handle_body w remote_ip port) @ [Close]"
      have "post \<noteq> []"
      proof
        assume "post = []"
        with t c have "last (trace (handle_body w remote_ip port) @ [Close])
                         = last (pre @ [Recv (Inr data)])" by simp
        then show False by simp
      qed
      then obtain post' where p: "post = post' @ [last post]"
        using append_butlast_last_id [of post] by metis
      with t c have "trace (handle_body w remote_ip port) @ [Close]
                       = (pre @ Recv (Inr data) # post') @ [last post]" by simp
      then have "trace (handle_body w remote_ip port) = pre @ Recv (Inr data) # post'
                   \<and> last post = Close"
        by (simp only: append1_eq_conv)
      with p show ?thesis by auto
    qed
    then obtain post' where b: "trace (handle_body w remote_ip port) = pre @ Recv (Inr data) # post'"
      and pp: "post = post' \<or> post = post' @ [Close]" by blast
    from handle_body_chunk_followed [OF b d] obtain k j rest where
      "post' = LogWrite (entry_of w k port remote_ip data) (write_result w k)
                 # Sendall reply (sendall_result w j) # rest"
      by blast
    with pp have "\<exists>rest'. post = LogWrite (entry_of w k port remote_ip data) (write_result w k)
                            # Sendall reply (sendall_result w j) # rest'"
      by auto
    then show ?thesis
      using decode_logged_text [of data] by (auto simp: entry_of_def)
  qed
  have c: "length (filter is_record (trace (handle_connection w remote_ip port)))
       = length (filter is_chunk (trace (handle_connection w remote_ip port)))
   \<and> length (filter is_reply (trace (handle_connection w remote_ip port)))
       = length (filter is_chunk (trace (handle_connection w remote_ip port)))"
    using handle_body_counts [of w remote_ip port] handle_connection_trace [of w remote_ip port]
    by auto
  show ?thesis using a c by (simp add: reply_def)
qed

theorem one_record_then_one_reply_witness:
  "trace (handle_connection (calm_world [Inr [0x6C, 0x73, 0x0A], Inr []]) ''10.0.0.1'' 22)
     = [Sendall (bytes_literal (''SSH-2.0-OpenSSH_8.2p1 Ubuntu-4ubuntu0.1'' @ CRLF)) (Inr ())]
       @ Recv (Inr [0x6C, 0x73, 0x0A])
       # [LogWrite \<lparr>entry_timestamp = ''2024-05-01T12:00:00'', entry_remote_ip = ''10.0.0.1'',
                    entry_port = 22, entry_data = [108, 115, 10]\<rparr> (Inr ()),
          Sendall reply (Inr ()), Recv (Inr []), Close]
   \<and> [0x6C, 0x73, 0x0A] \<noteq> ([] :: bytes)
   \<and> (\<exists>k j decoded rest.
          bytes_decode Ignore [0x6C, 0x73, 0x0A] = Inr decoded
          \<and> [LogWrite \<lparr>entry_timestamp = ''2024-05-01T12:00:00'', entry_remote_ip = ''10.0.0.1'',
                    entry_port = 22, entry_data = [108, 115, 10]\<rparr> (Inr ()),
              Sendall reply (Inr ()), Recv (Inr []), Close]
             = LogWrite \<lparr>entry_timestamp = now (calm_world [Inr [0x6C, 0x73, 0x0A], Inr []]) k,
                         entry_remote_ip = ''10.0.0.1'', entry_port = 22, entry_data = decoded\<rparr>
                 (write_result (calm_world [Inr [0x6C, 0x73, 0x0A], Inr []]) k)
               # Sendall reply (sendall_result (calm_world [Inr [0x6C, 0x73, 0x0A], Inr []]) j)
               # rest)"
proof -
  have t: "trace (handle_connection (calm_world [Inr [0x6C, 0x73, 0x0A], Inr []]) ''10.0.0.1'' 22)
     = [Sendall (bytes_literal (''SSH-2.0-OpenSSH_8.2p1 Ubuntu-4ubuntu0.1'' @ CRLF)) (Inr ())]
       @ Recv (Inr [0x6C, 0x73, 0x0A])
       # [LogWrite \<lparr>entry_timestamp = ''2024-05-01T12:00:00'', entry_remote_ip = ''10.0.0.1'',
                    entry_port = 22, entry_data = [108, 115, 10]\<rparr> (Inr ()),
          Sendall reply (Inr ()), Recv (Inr []), Close]"
    by code_simp
  have d: "[0x6C, 0x73, 0x0A] \<noteq> ([] :: bytes)" by simp
  show ?thesis
    using t d
      one_record_then_one_reply [of "calm_world [Inr [0x6C, 0x73, 0x0A], Inr []]" "''10.0.0.1''" 22
        "[Sendall (bytes_literal (''SSH-2.0-OpenSSH_8.2p1 Ubuntu-4ubuntu0.1'' @ CRLF)) (Inr ())]"
        "[0x6C, 0x73, 0x0A]"
        "[LogWrite \<lparr>entry_timestamp = ''2024-05-01T12:00:00'', entry_remote_ip = ''10.0.0.1'',
                    entry_port = 22, entry_data = [108, 115, 10]\<rparr> (Inr ()),
          Sendall reply (Inr ()), Recv (Inr []), Close]"]
    by blast
qed

lemma recv_loop_write_indep:
  "socket_events (trace (recv_loop (w\<lparr>write_result := f\<rparr>) port remote_ip ns nl rs))
     = socket_events (trace (recv_loop w port remote_ip ns nl rs))
   \<and> ending (recv_loop (w\<lparr>write_result := f\<rparr>) port remote_ip ns nl rs)
     = ending (recv_loop w port remote_ip ns nl rs)"
proof (induction rs arbitrary: ns nl)
  case Nil
  show ?case by simp
next
  case (Cons a rs)
  show ?case
  proof (cases a)
    case (Inl e)
    then show ?thesis by simp
  next
    case (Inr d)
    show ?thesis
    proof (cases "d = []")
      case True
      with Inr show ?thesis by (simp add: recv_loop_eof)
    next
      case False
      show ?thesis
        using Cons.IH [of "Suc ns" "Suc nl"] Inr False
        by (simp add: recv_loop_chunk socket_events_def split: sum.splits)
    qed
  qed
qed

lemma recv_loop_reports:
  "LogWrite entry (Inl e) \<in> set (trace (recv_loop w port remote_ip ns nl rs)) \<Longrightarrow>
   (''[!] Failed to write log entry: '' @ str_exn e)
     \<in> set (printed (recv_loop w port remote_ip ns nl rs))"
proof (induction rs arbitrary: ns nl)
  case Nil
  then show ?case by simp
next
  case (Cons a rs)
  show ?case
  proof (cases a)
    case (Inl e')
    with Cons.prems show ?thesis by simp
  next
    case (Inr d)
    show ?thesis
    proof (cases "d = []")
      case True
      with Inr Cons.prems show ?thesis by (simp add: recv_loop_eof)
    next
      case False
      show ?thesis
        using Cons.IH [of "Suc ns" "Suc nl"] Cons.prems Inr False
        by (auto simp: recv_loop_chunk log_activity_eq split: sum.splits)
    qed
  qed
qed

lemma handle_body_write_indep:
  "socket_events (trace (handle_body (w\<lparr>write_result := f\<rparr>) remote_ip port))
     = socket_events (trace (handle_body w remote_ip port))
   \<and> ending (handle_body (w\<lparr>write_result := f\<rparr>) remote_ip port)
     = ending (handle_body w remote_ip port)"
  using recv_loop_write_indep [where w = w and f = f and port = port and remote_ip = remote_ip
      and ns = 0 and nl = 0 and rs = "recv_script w"]
    recv_loop_write_indep [where w = w and f = f and port = port and remote_ip = remote_ip
      and ns = 1 and nl = 0 and rs = "recv_script w"]
  by (auto simp: handle_body_def Let_def socket_events_def split: option.splits sum.splits)

lemma handle_body_reports:
  "LogWrite entry (Inl e) \<in> set (trace (handle_body w remote_ip port)) \<Longrightarrow>
   (''[!] Failed to write log entry: '' @ str_exn e) \<in> set (printed (handle_body w remote_ip port))"
  using recv_loop_reports [where entry = entry and e = e and w = w and port = port
      and remote_ip = remote_ip and ns = 0 and nl = 0 and rs = "recv_script w"]
    recv_loop_reports [where entry = entry and e = e and w = w and port = port
      and remote_ip = remote_ip and ns = 1 and nl = 0 and rs = "recv_script w"]
  by (auto simp: handle_body_def Let_def split: option.splits sum.splits if_splits)

text \<open>
  C4: whatever the write of a log line does, \<open>log_activity\<close> returns normally, no
  exception reaches its caller. A failed write is printed on the console
  (\<open>[!] Failed to write log entry: ...\<close>), also in the run of the handler that made it.
  The handler goes on unaffected: what it receives, sends and closes on its connection,
  and the way it ends, do not depend on the outcomes of the log writes.
\<close>

theorem log_failure_isolated:
  "ending (log_activity w k port remote_ip data) = Normal
   \<and> (write_result w k = Inl e \<longrightarrow>
        printed (log_activity w k port remote_ip data)
          = [''[!] Failed to write log entry: '' @ str_exn e])
   \<and> (LogWrite entry (Inl e) \<in> set (trace (handle_connection w remote_ip port)) \<longrightarrow>
        (''[!] Failed to write log entry: '' @ str_exn e)
          \<in> set (printed (handle_connection w remote_ip port)))
   \<and> socket_events (trace (handle_connection (w\<lparr>write_result := f\<rparr>) remote_ip port))
       = socket_events (trace (handle_connection w remote_ip port))
   \<and> ending (handle_connection (w\<lparr>write_result := f\<rparr>) remote_ip port)
       = ending (handle_connection w remote_ip port)"
proof -
  have a: "ending (log_activity w k port remote_ip data) = Normal"
    by (simp add: log_activity_eq)
  have b: "printed (log_activity w k port remote_ip data)
          = [''[!] Failed to write log entry: '' @ str_exn e]"
    if "write_result w k = Inl e"
    using that by (simp add: log_activity_eq)
  have c: "(''[!] Failed to write log entry: '' @ str_exn e)
          \<in> set (printed (handle_connection w remote_ip port))"
    if "LogWrite entry (Inl e) \<in> set (trace (handle_connection w remote_ip port))"
  proof -
    from that have "LogWrite entry (Inl e) \<in> set (trace (handle_body w remote_ip port))"
      by (cases "ending (handle_body w remote_ip port)")
         (simp_all add: handle_connection_cases)
    from handle_body_reports [OF this] show ?thesis
      by (cases "ending (handle_body w remote_ip port)")
         (simp_all add: handle_connection_cases)
  qed
  have d: "socket_events (trace (handle_connection (w\<lparr>write_result := f\<rparr>) remote_ip port))
       = socket_events (trace (handle_connection w remote_ip port))
   \<and> ending (handle_connection (w\<lparr>write_result := f\<rparr>) remote_ip port)
       = ending (handle_connection w remote_ip port)"
    using handle_body_write_indep [where w = w and f = f and remote_ip = remote_ip
        and port = port]
    by (cases "ending (handle_body w remote_ip port)")
       (simp_all add: handle_connection_cases socket_events_def)
  show ?thesis using a b c d by blast
qed

theorem log_failure_isolated_witness:
  "write_result (disk_full_world [Inr [0x6C, 0x73, 0x0A], Inr []]) 0
     = Inl (OSError ''No space left on device'')
   \<and> handle_connection (disk_full_world [Inr [0x6C, 0x73, 0x0A], Inr []]) ''10.0.0.1'' 8080
     = \<lparr>trace = [Recv (Inr [0x6C, 0x73, 0x0A]),
                 LogWrite \<lparr>entry_timestamp = ''2024-05-01T12:00:00'',
                           entry_remote_ip = ''10.0.0.1'', entry_port = 8080,
                           entry_data = [108, 115, 10]\<rparr>
                   (Inl (OSError ''No space left on device'')),
                 Sendall reply (Inr ()), Recv (Inr []), Close],
        printed = [''[!] Failed to write log entry: No space left on device''],
        ending = Normal\<rparr>
   \<and> printed (log_activity (disk_full_world [Inr [0x6C, 0x73, 0x0A], Inr []]) 0 8080 ''10.0.0.1''
        [0x6C, 0x73, 0x0A]) = [''[!] Failed to write log entry: No space left on device'']
   \<and> ending (log_activity (disk_full_world [Inr [0x6C, 0x73, 0x0A], Inr []]) 0 8080 ''10.0.0.1''
        [0x6C, 0x73, 0x0A]) = Normal
   \<and> socket_events (trace (handle_connection (disk_full_world [Inr [0x6C, 0x73, 0x0A], Inr []])
        ''10.0.0.1'' 8080))
     = socket_events (trace (handle_connection (calm_world [Inr [0x6C, 0x73, 0x0A], Inr []])
        ''10.0.0.1'' 8080))"
proof -
  let ?w = "disk_full_world [Inr [0x6C, 0x73, 0x0A], Inr []]"
  let ?entry = "\<lparr>entry_timestamp = ''2024-05-01T12:00:00'', entry_remote_ip = ''10.0.0.1'',
                  entry_port = 8080, entry_data = [108, 115, 10]\<rparr>"
  have h1: "write_result ?w 0 = Inl (OSError ''No space left on device'')"
    by (simp add: disk_full_world_def)
  have h2: "handle_connection ?w ''10.0.0.1'' 8080
     = \<lparr>trace = [Recv (Inr [0x6C, 0x73, 0x0A]),
                 LogWrite ?entry (Inl (OSError ''No space left on device'')),
                 Sendall reply (Inr ()), Recv (Inr []), Close],
        printed = [''[!] Failed to write log entry: No space left on device''],
        ending = Normal\<rparr>"
    by code_simp
  have h3: "LogWrite ?entry (Inl (OSError ''No space left on device''))
              \<in> set (trace (handle_connection ?w ''10.0.0.1'' 8080))"
    by (simp add: h2)
  have h4: "?w = (calm_world [Inr [0x6C, 0x73, 0x0A], Inr []])
                   \<lparr>write_result := (\<lambda>k. Inl (OSError ''No space left on device''))\<rparr>"
    by (simp add: disk_full_world_def)
  from log_failure_isolated [where w = ?w and k = 0 and port = 8080
      and remote_ip = "''10.0.0.1''" and data = "[0x6C, 0x73, 0x0A]"
      and e = "OSError ''No space left on device''" and entry = ?entry
      and f = "write_result (calm_world [Inr [0x6C, 0x73, 0x0A], Inr []])"]
  have g: "ending (log_activity ?w 0 8080 ''10.0.0.1'' [0x6C, 0x73, 0x0A]) = Normal
    \<and> printed (log_activity ?w 0 8080 ''10.0.0.1'' [0x6C, 0x73, 0x0A])
        = [''[!] Failed to write log entry: No space left on device'']
    \<and> socket_events (trace (handle_connection
          (?w\<lparr>write_result := write_result (calm_world [Inr [0x6C, 0x73, 0x0A], Inr []])\<rparr>)
          ''10.0.0.1'' 8080))
       = socket_events (trace (handle_connection ?w ''10.0.0.1'' 8080))"
    using h1 h3 by simp
  have h5: "?w\<lparr>write_result := write_result (calm_world [Inr [0x6C, 0x73, 0x0A], Inr []])\<rparr>
              = calm_world [Inr [0x6C, 0x73, 0x0A], Inr []]"
    by (simp add: disk_full_world_def)
  show ?thesis using g h1 h2 h5 by simp
qed

section \<open>Properties of the listener\<close>

lemma accept_loop_until_failure:
  "(\<forall>i < length conns. start_result lw (k + i) = Inr ()) \<Longrightarrow>
   accept_loop lw port k (map Inr conns @ Inl e # later)
     = \<lparr>trace = dispatched port conns @ [Accept (Inl e)],
        printed = map (accepted_line port) conns, ending = Raised e\<rparr>"
proof (induction conns arbitrary: k)
  case Nil
  show ?case by simp
next
  case (Cons addr conns)
  have s0: "start_result lw k = Inr ()" using Cons.prems by force
  have "\<forall>i < length conns. start_result lw (Suc k + i) = Inr ()"
  proof (intro allI impI)
    fix i assume "i < length conns"
    then have "Suc i < length (addr # conns)" by simp
    from Cons.prems [rule_format, OF this] show "start_result lw (Suc k + i) = Inr ()" by simp
  qed
  from Cons.IH [OF this] s0 show ?case by (simp add: Let_def)
qed

text \<open>
  C6, as amended: once the listening socket is set up, the first \<open>accept()\<close> that raises
  ends the listener. The connections accepted before it have been handed to their handler
  threads; the exception is printed (\<open>[!] Error starting listener on port ...\<close>) and
  \<open>start_listener\<close> returns, whatever the later \<open>accept()\<close> calls would have returned.
\<close>

theorem accept_failure_ends_listener:
  "socket_result lw = Inr () \<and> setsockopt_result lw = Inr () \<and> bind_result lw = Inr ()
   \<and> listen_result lw = Inr ()
   \<and> accept_script lw = map Inr conns @ Inl e # later
   \<and> (\<forall>i < length conns. start_result lw i = Inr ()) \<longrightarrow>
   start_listener lw ip port
     = \<lparr>trace = dispatched port conns @ [Accept (Inl e)],
        printed = (''[*] Listening on '' @ ip @ '':'' @ str_int port)
                  # map (accepted_line port) conns
                  @ [''[!] Error starting listener on port '' @ str_int port @ '': '' @ str_exn e],
        ending = Normal\<rparr>"
proof
  assume h: "socket_result lw = Inr () \<and> setsockopt_result lw = Inr () \<and> bind_result lw = Inr ()
   \<and> listen_result lw = Inr ()
   \<and> accept_script lw = map Inr conns @ Inl e # later
   \<and> (\<forall>i < length conns. start_result lw i = Inr ())"
  then have "\<forall>i < length conns. start_result lw (0 + i) = Inr ()" by simp
  from accept_loop_until_failure [OF this, of port e later]
  have l: "accept_loop lw port 0 (accept_script lw)
     = \<lparr>trace = dispatched port conns @ [Accept (Inl e)],
        printed = map (accepted_line port) conns, ending = Raised e\<rparr>"
    using h by simp
  have b: "listener_body lw ip port
     = \<lparr>trace = dispatched port conns @ [Accept (Inl e)],
        printed = (''[*] Listening on '' @ ip @ '':'' @ str_int port)
                  # map (accepted_line port) conns,
        ending = Raised e\<rparr>"
    using h l by (simp add: listener_body_def Let_def)
  show "start_listener lw ip port
     = \<lparr>trace = dispatched port conns @ [Accept (Inl e)],
        printed = (''[*] Listening on '' @ ip @ '':'' @ str_int port)
                  # map (accepted_line port) conns
                  @ [''[!] Error starting listener on port '' @ str_int port @ '': '' @ str_exn e],
        ending = Normal\<rparr>"
    by (simp add: start_listener_def Let_def b)
qed

theorem accept_failure_ends_listener_witness:
  "socket_result (calm_listener [Inr (''10.0.0.1'', 40000), Inl (OSError ''Too many open files''),
       Inr (''10.0.0.2'', 40001)]) = Inr ()
   \<and> accept_script (calm_listener [Inr (''10.0.0.1'', 40000), Inl (OSError ''Too many open files''),
       Inr (''10.0.0.2'', 40001)])
      = map Inr [(''10.0.0.1'', 40000)] @ Inl (OSError ''Too many open files'')
          # [Inr (''10.0.0.2'', 40001)]
   \<and> start_listener (calm_listener [Inr (''10.0.0.1'', 40000),
        Inl (OSError ''Too many open files''), Inr (''10.0.0.2'', 40001)]) ''0.0.0.0'' 8080
     = \<lparr>trace = [Accept (Inr (''10.0.0.1'', 40000)), StartHandler ''10.0.0.1'' 8080 (Inr ()),
                 Accept (Inl (OSError ''Too many open files''))],
        printed = [''[*] Listening on 0.0.0.0:8080'',
                   ''[*] Accepted connection from 10.0.0.1:40000 on port 8080'',
                   ''[!] Error starting listener on port 8080: Too many open files''],
        ending = Normal\<rparr>"
proof -
  let ?lw = "calm_listener [Inr (''10.0.0.1'', 40000), Inl (OSError ''Too many open files''),
       Inr (''10.0.0.2'', 40001)]"
  have h1: "socket_result ?lw = Inr () \<and> setsockopt_result ?lw = Inr () \<and> bind_result ?lw = Inr ()
     \<and> listen_result ?lw = Inr ()"
    by (simp add: calm_listener_def)
  have h2: "accept_script ?lw
      = map Inr [(''10.0.0.1'', 40000)] @ Inl (OSError ''Too many open files'')
          # [Inr (''10.0.0.2'', 40001)]"
    by (simp add: calm_listener_def)
  have h3: "\<forall>i < length [(''10.0.0.1'' :: string, 40000 :: int)]. start_result ?lw i = Inr ()"
    by (simp add: calm_listener_def)
  have s1: "str_int 8080 = ''8080''" by code_simp
  have s2: "accepted_line 8080 (''10.0.0.1'', 40000)
              = ''[*] Accepted connection from 10.0.0.1:40000 on port 8080''" by code_simp
  from accept_failure_ends_listener [where lw = ?lw and conns = "[(''10.0.0.1'', 40000)]"
      and e = "OSError ''Too many open files''" and later = "[Inr (''10.0.0.2'', 40001)]"
      and ip = "''0.0.0.0''" and port = 8080] h1 h2 h3
  have "start_listener ?lw ''0.0.0.0'' 8080
     = \<lparr>trace = dispatched 8080 [(''10.0.0.1'', 40000)] @ [Accept (Inl (OSError ''Too many open files''))],
        printed = (''[*] Listening on '' @ ''0.0.0.0'' @ '':'' @ str_int 8080)
                  # map (accepted_line 8080) [(''10.0.0.1'', 40000)]
                  @ [''[!] Error starting listener on port '' @ str_int 8080 @ '': ''
                       @ str_exn (OSError ''Too many open files'')],
        ending = Normal\<rparr>"
    by blast
  then show ?thesis using h1 h2 s1 s2 by simp
qed

text \<open>
  The claim C6 as written fails: after one \<open>accept()\<close> that fails with a connection
  aborted by its peer, the listener prints the error and returns; the connection that
  the next \<open>accept()\<close> would have returned is never accepted.
\<close>

theorem accept_failure_counterexample:
  "start_listener (calm_listener [Inl (OSError ''Software caused connection abort''),
       Inr (''10.0.0.1'', 40000)]) ''0.0.0.0'' 8080
     = \<lparr>trace = [Accept (Inl (OSError ''Software caused connection abort''))],
        printed = [''[*] Listening on 0.0.0.0:8080'',
                   ''[!] Error starting listener on port 8080: Software caused connection abort''],
        ending = Normal\<rparr>"
  by code_simp

end
